theory Spec2Isabelle
  imports Main "HOL-Library.Word"
begin

unbundle bit_operations_syntax

section \<open>The output packet of Controller.hpp\<close>

text \<open>
  \<^verbatim>\<open>unsigned char\<close> is an 8-bit word and \<^verbatim>\<open>unsigned short\<close> a 16-bit word.
\<close>

type_synonym byte = "8 word"
type_synonym ushort = "16 word"

definition SONY_INTERACTIVE_ENTERTAINMENT_VENDOR_ID :: ushort where
  "SONY_INTERACTIVE_ENTERTAINMENT_VENDOR_ID = 1356"

definition DUALSHOCK_4_CONTROLLER_PRO_ID :: ushort where
  "DUALSHOCK_4_CONTROLLER_PRO_ID = 2508"

text \<open>
  \<^verbatim>\<open>struct dualshock4_hid_out_payload\<close>, packed: ten single bytes followed by
  \<^verbatim>\<open>unsigned char padding[21]\<close>. The array is a list; every payload the code builds
  has 21 elements there.
\<close>

record dualshock4_hid_out_payload =
  flags :: byte
  reserved_unk :: byte
  Empty :: byte
  smallMotorPower :: byte
  largeMotorPower :: byte
  redLed :: byte
  greenLed :: byte
  blueLed :: byte
  ledFlashOnTime :: byte
  ledFlashOffTime :: byte
  padding :: "byte list"

text \<open>\<^verbatim>\<open>struct dualshock4_hid_out_packet\<close>, packed: the report id, then the payload.\<close>

record dualshock4_hid_out_packet =
  reportId :: byte
  payload :: dualshock4_hid_out_payload

text \<open>
  The bytes of the two structs in memory order. Under \<^verbatim>\<open>#pragma pack(1)\<close> with only
  \<^verbatim>\<open>unsigned char\<close> members there is no padding between the fields, so this is what a
  cast to \<^verbatim>\<open>unsigned char*\<close> reads.
\<close>

definition payload_bytes :: "dualshock4_hid_out_payload \<Rightarrow> byte list" where
  "payload_bytes p =
     [flags p, reserved_unk p, Empty p, smallMotorPower p, largeMotorPower p,
      redLed p, greenLed p, blueLed p, ledFlashOnTime p, ledFlashOffTime p] @ padding p"

definition packet_bytes :: "dualshock4_hid_out_packet \<Rightarrow> byte list" where
  "packet_bytes k = reportId k # payload_bytes (payload k)"

text \<open>\<^verbatim>\<open>sizeof\<close> of the two structs.\<close>

definition sizeof_payload :: nat where
  "sizeof_payload = 10 + 21"

definition sizeof_packet :: nat where
  "sizeof_packet = 1 + sizeof_payload"

text \<open>
  \<^verbatim>\<open>sizeof\<close> of a pointer depends on the platform's data model: 4 bytes with 32-bit
  pointers, 8 bytes with 64-bit pointers.
\<close>

datatype data_model = ILP32 | LP64

fun sizeof_ptr :: "data_model \<Rightarrow> nat" where
  "sizeof_ptr ILP32 = 4"
| "sizeof_ptr LP64 = 8"

text \<open>What \<^verbatim>\<open>memset(.., 0x00, sizeof payload)\<close> and \<^verbatim>\<open>calloc\<close> leave behind.\<close>

definition zero_payload :: dualshock4_hid_out_payload where
  "zero_payload =
     \<lparr>flags = 0, reserved_unk = 0, Empty = 0, smallMotorPower = 0, largeMotorPower = 0,
      redLed = 0, greenLed = 0, blueLed = 0, ledFlashOnTime = 0, ledFlashOffTime = 0,
      padding = replicate 21 0\<rparr>"

definition zero_packet :: dualshock4_hid_out_packet where
  "zero_packet = \<lparr>reportId = 0, payload = zero_payload\<rparr>"

section \<open>The transport and the environment\<close>

text \<open>
  \<^verbatim>\<open>hid_device_info\<close> is the descriptor struct of hidapi. The record has the four
  members the constructor reads: \<^verbatim>\<open>unsigned short vendor_id\<close>,
  \<^verbatim>\<open>unsigned short product_id\<close>, \<^verbatim>\<open>wchar_t *serial_number\<close> and
  \<^verbatim>\<open>unsigned short usage\<close>. An \<^verbatim>\<open>unsigned short\<close> holds 0 to 65535; the value
  \<^verbatim>\<open>-1\<close> stored into it is 65535.
\<close>

type_synonym hid_device = nat

record hid_device_info =
  vendor_id :: ushort
  product_id :: ushort
  serial_number :: string
  usage :: ushort

text \<open>
  The environment answers the calls whose result the code does not control:
  \<^verbatim>\<open>hid_open\<close> (\<open>None\<close> is \<^verbatim>\<open>NULL\<close>), whether \<^verbatim>\<open>calloc\<close> returns memory, and
  the value \<^verbatim>\<open>hid_send_output_report\<close> returns (\<open>-1\<close> on failure) for a device, the
  memory behind the data pointer and the length argument.
\<close>

record env =
  hid_open :: "ushort \<Rightarrow> ushort \<Rightarrow> string \<Rightarrow> hid_device option"
  calloc_ok :: bool
  hid_send_output_report :: "hid_device option \<Rightarrow> byte list \<Rightarrow> nat \<Rightarrow> int"

text \<open>
  Every effect on the outside world is recorded, in order. A send records the device,
  the bytes of the object the data pointer points to, the length argument and the
  returned value.
\<close>

datatype event =
    Stdout string
  | HidOpen ushort ushort string
  | HidError
  | Calloc nat nat
  | HidSendOutputReport "hid_device option" "byte list" nat int
  | Free
  | HidClose hid_device

fun is_hid_call :: "event \<Rightarrow> bool" where
  "is_hid_call (HidOpen v p s) = True"
| "is_hid_call HidError = True"
| "is_hid_call (HidSendOutputReport d b n r) = True"
| "is_hid_call (HidClose d) = True"
| "is_hid_call e = False"

text \<open>The memory handed to each send, and the bytes a send of that length transmits.\<close>

fun sent_buffers :: "event list \<Rightarrow> byte list list" where
  "sent_buffers [] = []"
| "sent_buffers (HidSendOutputReport d b n r # es) = b # sent_buffers es"
| "sent_buffers (e # es) = sent_buffers es"

fun transmitted :: "event list \<Rightarrow> byte list list" where
  "transmitted [] = []"
| "transmitted (HidSendOutputReport d b n r # es) = take n b # transmitted es"
| "transmitted (e # es) = transmitted es"

text \<open>
  \<open>Aborted\<close> is \<^verbatim>\<open>std::abort()\<close>; \<open>NullDeref\<close> is a write or read through a
  \<^verbatim>\<open>NULL\<close> packet pointer.
\<close>

datatype fault = Aborted | NullDeref

section \<open>The class DualShock4\<close>

record DualShock4 =
  dev :: "hid_device option"
  isUsb :: byte
  controllerOutPacket :: "dualshock4_hid_out_packet option"

text \<open>
  The constructor. \<open>None\<close> for the argument is the \<^verbatim>\<open>NULL\<close> pointer. The result is
  the list of effects and either the fault that ended construction or the object. In
  \<^verbatim>\<open>usage == -1\<close> the \<^verbatim>\<open>unsigned short\<close> member is promoted to \<^verbatim>\<open>int\<close>, so
  the comparison is between its unsigned value \<open>uint\<close> and the integer \<open>-1\<close>.
\<close>

definition DualShock4_ctor ::
  "env \<Rightarrow> hid_device_info option \<Rightarrow> event list \<times> (fault + DualShock4)" where
  "DualShock4_ctor w openDeviceInfo =
    (case openDeviceInfo of
       None \<Rightarrow> ([Stdout ''The given openning device infor pointer is NULL''], Inl Aborted)
     | Some info \<Rightarrow>
        if product_id info \<noteq> DUALSHOCK_4_CONTROLLER_PRO_ID
        then ([Stdout ''Controller type mismathced''], Inl Aborted)
        else
          let opening = HidOpen (vendor_id info) (product_id info) (serial_number info) in
          (case hid_open w (vendor_id info) (product_id info) (serial_number info) of
             None \<Rightarrow> ([opening, HidError], Inl Aborted)
           | Some d \<Rightarrow>
              let usb = (if uint (usage info) = - 1 then 0 else 1 :: byte);
                  alloc = Calloc 1 sizeof_packet
              in if \<not> calloc_ok w then ([opening, alloc], Inl NullDeref)
                 else
                   let p0 = zero_packet;
                       p1 = p0\<lparr>reportId := (if usb = 1 then 0x05 else 0x11)\<rparr>;
                       p2 = p1\<lparr>payload := zero_payload\<rparr>
                   in ([opening, alloc],
                       Inr \<lparr>dev = Some d, isUsb = usb, controllerOutPacket = Some p2\<rparr>)))"

text \<open>
  The destructor. The length argument of the send is
  \<^verbatim>\<open>sizeof(this->controllerOutPacket)\<close>, the size of the pointer member; the value the
  send returns is not looked at.
\<close>

definition DualShock4_dtor ::
  "env \<Rightarrow> data_model \<Rightarrow> DualShock4 \<Rightarrow> event list \<times> (fault + unit)" where
  "DualShock4_dtor w dm this =
    (case controllerOutPacket this of
       None \<Rightarrow> ([], Inl NullDeref)
     | Some p \<Rightarrow>
        let p' = p\<lparr>payload := (payload p)\<lparr>reserved_unk := 0x01\<rparr>\<rparr>;
            n = sizeof_ptr dm;
            r = hid_send_output_report w (dev this) (packet_bytes p') n
        in ([HidSendOutputReport (dev this) (packet_bytes p') n r, Free, Stdout ''test1'']
            @ (case dev this of None \<Rightarrow> [] | Some d \<Rightarrow> [HidClose d])
            @ [Stdout ''test1''],
            Inr ()))"

section \<open>The builder methods and send\<close>

text \<open>
  Controller.hpp declares \<^verbatim>\<open>enableRumble\<close>, \<^verbatim>\<open>enableLED\<close>, \<^verbatim>\<open>enableLEDBlink\<close>,
  \<^verbatim>\<open>setRumBle\<close>, \<^verbatim>\<open>setLEDColor\<close>, \<^verbatim>\<open>setLEDOnPeriod\<close>, \<^verbatim>\<open>setLEDOffPeriod\<close> and
  \<^verbatim>\<open>send\<close>; their bodies are in no source file at hand. Each returns
  \<^verbatim>\<open>DualShock4&\<close>, the object it was called on. The definitions below follow the
  specification (sections 4.4 and 4.5) and the declared signatures. A method that
  reaches through a \<^verbatim>\<open>NULL\<close> packet pointer faults.
\<close>

text \<open>
  Modelled from the spec: the common shape of the builder bodies, which are missing.
  A mutator changes the payload of the staging packet in place and returns the object.
\<close>

definition on_payload ::
  "(dualshock4_hid_out_payload \<Rightarrow> dualshock4_hid_out_payload) \<Rightarrow> DualShock4 \<Rightarrow> fault + DualShock4" where
  "on_payload f this =
     (case controllerOutPacket this of
        None \<Rightarrow> Inl NullDeref
      | Some p \<Rightarrow> Inr (this\<lparr>controllerOutPacket := Some (p\<lparr>payload := f (payload p)\<rparr>)\<rparr>))"

text \<open>
  Modelled from the spec: the body of \<^verbatim>\<open>enableRumble\<close> is missing. It sets the flag bit
  of the rumble subsystem "without changing magnitude". The spec does not give the
  position of the bit, so the mask \<open>m\<close> is a parameter.
\<close>

definition enableRumble :: "byte \<Rightarrow> DualShock4 \<Rightarrow> fault + DualShock4" where
  "enableRumble m = on_payload (\<lambda>q. q\<lparr>flags := flags q OR m\<rparr>)"

text \<open>
  Modelled from the spec: the body of \<^verbatim>\<open>enableLED\<close> is missing. It sets the flag bit of
  the LED colour subsystem; the mask \<open>m\<close> is a parameter.
\<close>

definition enableLED :: "byte \<Rightarrow> DualShock4 \<Rightarrow> fault + DualShock4" where
  "enableLED m = on_payload (\<lambda>q. q\<lparr>flags := flags q OR m\<rparr>)"

text \<open>
  Modelled from the spec: the body of \<^verbatim>\<open>enableLEDBlink\<close> is missing. It sets the flag
  bit of the LED blink subsystem; the mask \<open>m\<close> is a parameter.
\<close>

definition enableLEDBlink :: "byte \<Rightarrow> DualShock4 \<Rightarrow> fault + DualShock4" where
  "enableLEDBlink m = on_payload (\<lambda>q. q\<lparr>flags := flags q OR m\<rparr>)"

text \<open>
  Modelled from the spec: the body of \<^verbatim>\<open>setRumBle\<close> is missing. It stores the two
  rumble magnitudes, small motor first.
\<close>

definition setRumBle :: "byte \<Rightarrow> byte \<Rightarrow> DualShock4 \<Rightarrow> fault + DualShock4" where
  "setRumBle smallRumbleLevel bigRumbleLevel =
     on_payload (\<lambda>q. q\<lparr>smallMotorPower := smallRumbleLevel, largeMotorPower := bigRumbleLevel\<rparr>)"

text \<open>
  Modelled from the spec: the body of \<^verbatim>\<open>setLEDColor\<close> is missing. It stores the three
  colour channels.
\<close>

definition setLEDColor :: "byte \<Rightarrow> byte \<Rightarrow> byte \<Rightarrow> DualShock4 \<Rightarrow> fault + DualShock4" where
  "setLEDColor r g b = on_payload (\<lambda>q. q\<lparr>redLed := r, greenLed := g, blueLed := b\<rparr>)"

text \<open>
  Modelled from the spec: the body of \<^verbatim>\<open>setLEDOnPeriod\<close> is missing. It stores the
  blink-on duration.
\<close>

definition setLEDOnPeriod :: "byte \<Rightarrow> DualShock4 \<Rightarrow> fault + DualShock4" where
  "setLEDOnPeriod period = on_payload (\<lambda>q. q\<lparr>ledFlashOnTime := period\<rparr>)"

text \<open>
  Modelled from the spec: the body of \<^verbatim>\<open>setLEDOffPeriod\<close> is missing. It stores the
  blink-off duration.
\<close>

definition setLEDOffPeriod :: "byte \<Rightarrow> DualShock4 \<Rightarrow> fault + DualShock4" where
  "setLEDOffPeriod period = on_payload (\<lambda>q. q\<lparr>ledFlashOffTime := period\<rparr>)"

text \<open>
  Modelled from the spec: the body of \<^verbatim>\<open>send\<close> is missing. It hands the whole staging
  packet (report id and full payload) to the transport in a single write, does not
  retry, and leaves the object as it is whatever the write returns.
\<close>

definition send :: "env \<Rightarrow> DualShock4 \<Rightarrow> event list \<times> (fault + DualShock4)" where
  "send w this =
     (case controllerOutPacket this of
        None \<Rightarrow> ([], Inl NullDeref)
      | Some p \<Rightarrow>
         let r = hid_send_output_report w (dev this) (packet_bytes p) sizeof_packet
         in ([HidSendOutputReport (dev this) (packet_bytes p) sizeof_packet r], Inr this))"

text \<open>
  The states an object can be in: the result of a construction that completed, followed
  by any number of builder calls and sends that returned.
\<close>

inductive handle_state :: "DualShock4 \<Rightarrow> bool" where
  constructed: "snd (DualShock4_ctor w oi) = Inr h \<Longrightarrow> handle_state h"
| rumble_on: "handle_state h \<Longrightarrow> enableRumble m h = Inr h' \<Longrightarrow> handle_state h'"
| led_on: "handle_state h \<Longrightarrow> enableLED m h = Inr h' \<Longrightarrow> handle_state h'"
| blink_on: "handle_state h \<Longrightarrow> enableLEDBlink m h = Inr h' \<Longrightarrow> handle_state h'"
| rumble_set: "handle_state h \<Longrightarrow> setRumBle a b h = Inr h' \<Longrightarrow> handle_state h'"
| colour_set: "handle_state h \<Longrightarrow> setLEDColor r g b h = Inr h' \<Longrightarrow> handle_state h'"
| on_period_set: "handle_state h \<Longrightarrow> setLEDOnPeriod t h = Inr h' \<Longrightarrow> handle_state h'"
| off_period_set: "handle_state h \<Longrightarrow> setLEDOffPeriod t h = Inr h' \<Longrightarrow> handle_state h'"
| sent: "handle_state h \<Longrightarrow> snd (send w h) = Inr h' \<Longrightarrow> handle_state h'"

text \<open>The bytes of the staging packet of an object (none behind a \<^verbatim>\<open>NULL\<close> pointer).\<close>

definition wire :: "DualShock4 \<Rightarrow> byte list" where
  "wire h = (case controllerOutPacket h of None \<Rightarrow> [] | Some p \<Rightarrow> packet_bytes p)"

text \<open>
  The canonical reset payload of the specification: every field zero, except the marker
  byte \<open>reserved_unk\<close> that the destructor sets to 1.
\<close>

definition reset_payload :: dualshock4_hid_out_payload where
  "reset_payload = zero_payload\<lparr>reserved_unk := 0x01\<rparr>"

section \<open>Concrete descriptors, environments and objects\<close>

definition usb_info :: hid_device_info where
  "usb_info = \<lparr>vendor_id = 1356, product_id = 2508, serial_number = ''SN'', usage = 5\<rparr>"

text \<open>A descriptor whose usage member was given the "no usage" value \<^verbatim>\<open>-1\<close>.\<close>

definition no_usage_info :: hid_device_info where
  "no_usage_info =
     \<lparr>vendor_id = 1356, product_id = 2508, serial_number = ''SN'', usage = 0xFFFF\<rparr>"

definition other_vendor_info :: hid_device_info where
  "other_vendor_info = \<lparr>vendor_id = 1118, product_id = 2508, serial_number = ''SN'', usage = 5\<rparr>"

definition other_product_info :: hid_device_info where
  "other_product_info = \<lparr>vendor_id = 1356, product_id = 1476, serial_number = ''SN'', usage = 5\<rparr>"

text \<open>Every open yields device 7 and memory is available; a send reports its length.\<close>

definition good_env :: env where
  "good_env = \<lparr>hid_open = (\<lambda>v p s. Some 7), calloc_ok = True,
               hid_send_output_report = (\<lambda>d b n. int n)\<rparr>"

text \<open>As before, but every send fails.\<close>

definition failing_send_env :: env where
  "failing_send_env = \<lparr>hid_open = (\<lambda>v p s. Some 7), calloc_ok = True,
                       hid_send_output_report = (\<lambda>d b n. - 1)\<rparr>"

text \<open>As \<open>good_env\<close>, but \<^verbatim>\<open>calloc\<close> returns \<^verbatim>\<open>NULL\<close>.\<close>

definition no_memory_env :: env where
  "no_memory_env = \<lparr>hid_open = (\<lambda>v p s. Some 7), calloc_ok = False,
                    hid_send_output_report = (\<lambda>d b n. int n)\<rparr>"

definition usb_handle :: DualShock4 where
  "usb_handle = \<lparr>dev = Some 7, isUsb = 1,
                 controllerOutPacket = Some \<lparr>reportId = 0x05, payload = zero_payload\<rparr>\<rparr>"

definition rumble_handle :: DualShock4 where
  "rumble_handle = \<lparr>dev = Some 7, isUsb = 1,
     controllerOutPacket =
       Some \<lparr>reportId = 0x05,
             payload = zero_payload\<lparr>smallMotorPower := 100, largeMotorPower := 200\<rparr>\<rparr>\<rparr>"

section \<open>Construction\<close>

lemma sizeof_packet_32: "sizeof_packet = 32"
  by (simp add: sizeof_packet_def sizeof_payload_def)

lemma payload_bytes_zero: "payload_bytes zero_payload = replicate 31 0"
  by (simp add: payload_bytes_def zero_payload_def numeral_eq_Suc)

text \<open>The promoted value of an \<^verbatim>\<open>unsigned short\<close> is never \<open>-1\<close>.\<close>

lemma usage_never_minus_one: "uint (u :: ushort) \<noteq> - 1"
  using uint_ge_0 [of u] by linarith

text \<open>
  The object of a completed construction. The branch \<^verbatim>\<open>isUsb = 0\<close> is never taken, so
  the report id is always 0x05.
\<close>

lemma ctor_Inr:
  assumes "snd (DualShock4_ctor w oi) = Inr h"
  shows "\<exists>info d. oi = Some info
           \<and> product_id info = DUALSHOCK_4_CONTROLLER_PRO_ID
           \<and> hid_open w (vendor_id info) (product_id info) (serial_number info) = Some d
           \<and> calloc_ok w
           \<and> h = \<lparr>dev = Some d, isUsb = 1,
                  controllerOutPacket = Some \<lparr>reportId = 0x05, payload = zero_payload\<rparr>\<rparr>"
  using assms
  by (auto simp: DualShock4_ctor_def Let_def zero_packet_def usage_never_minus_one
           split: option.splits if_splits)

text \<open>
  When construction aborts and when it completes. The vendor id is handed to
  \<^verbatim>\<open>hid_open\<close> and compared with nothing.
\<close>

lemma ctor_aborts_iff:
  "snd (DualShock4_ctor w oi) = Inl Aborted \<longleftrightarrow>
     (case oi of
        None \<Rightarrow> True
      | Some info \<Rightarrow> product_id info \<noteq> 2508
          \<or> hid_open w (vendor_id info) (product_id info) (serial_number info) = None)"
  by (auto simp: DualShock4_ctor_def Let_def DUALSHOCK_4_CONTROLLER_PRO_ID_def
      split: option.splits)

lemma ctor_completes_iff:
  "(\<exists>h. snd (DualShock4_ctor w oi) = Inr h) \<longleftrightarrow>
     (\<exists>info d. oi = Some info \<and> product_id info = 2508
        \<and> hid_open w (vendor_id info) (product_id info) (serial_number info) = Some d
        \<and> calloc_ok w)"
  by (auto simp: DualShock4_ctor_def Let_def DUALSHOCK_4_CONTROLLER_PRO_ID_def
      split: option.splits)

lemma ctor_good_usb:
  "DualShock4_ctor good_env (Some usb_info)
     = ([HidOpen 1356 2508 ''SN'', Calloc 1 32], Inr usb_handle)"
  by (simp add: DualShock4_ctor_def good_env_def usb_info_def usb_handle_def
      DUALSHOCK_4_CONTROLLER_PRO_ID_def zero_packet_def sizeof_packet_32)

lemma ctor_report_id_usb:
  assumes "snd (DualShock4_ctor w oi) = Inr h"
  shows "isUsb h = 1 \<and> map_option reportId (controllerOutPacket h) = Some 0x05"
  using ctor_Inr [OF assms] by auto

text \<open>
  Claim C1, at a descriptor whose usage signals "no usage". The member holds 65535, the
  value \<^verbatim>\<open>-1\<close> takes in an \<^verbatim>\<open>unsigned short\<close>; promoted to \<^verbatim>\<open>int\<close> it is
  65535 and not \<open>-1\<close>, so the constructor takes the USB branch and the report id of the
  staging packet is 0x05, not 0x11.
\<close>

theorem ctor_no_usage_gets_usb_id:
  "usage no_usage_info = - 1
   \<and> uint (usage no_usage_info) = 65535
   \<and> DualShock4_ctor good_env (Some no_usage_info)
       = ([HidOpen 1356 2508 ''SN'', Calloc 1 32], Inr usb_handle)
   \<and> isUsb usb_handle = 1
   \<and> map_option reportId (controllerOutPacket usb_handle) = Some 0x05
   \<and> map_option reportId (controllerOutPacket usb_handle) \<noteq> Some 0x11"
  by (simp add: DualShock4_ctor_def good_env_def no_usage_info_def usb_handle_def
      DUALSHOCK_4_CONTROLLER_PRO_ID_def zero_packet_def sizeof_packet_32)

text \<open>
  Claim C4, at a descriptor the constructor should refuse. The vendor id 1118 is not
  1356, the product id is 2508 and the open succeeds: construction completes. The
  constructor never compares the vendor id;
  \<open>SONY_INTERACTIVE_ENTERTAINMENT_VENDOR_ID\<close> is defined and not used.
\<close>

theorem ctor_accepts_other_vendor:
  "vendor_id other_vendor_info \<noteq> SONY_INTERACTIVE_ENTERTAINMENT_VENDOR_ID
   \<and> DualShock4_ctor good_env (Some other_vendor_info)
       = ([HidOpen 1118 2508 ''SN'', Calloc 1 32], Inr usb_handle)"
  by (simp add: DualShock4_ctor_def good_env_def other_vendor_info_def usb_handle_def
      DUALSHOCK_4_CONTROLLER_PRO_ID_def SONY_INTERACTIVE_ENTERTAINMENT_VENDOR_ID_def
      zero_packet_def sizeof_packet_32)

text \<open>
  Claim C6. For every descriptor whose product id is not 2508, construction aborts and
  has made no call on the transport: in particular no open.
\<close>

theorem ctor_rejects_product_before_open:
  assumes "product_id info \<noteq> 2508"
  shows "snd (DualShock4_ctor w (Some info)) = Inl Aborted
         \<and> filter is_hid_call (fst (DualShock4_ctor w (Some info))) = []"
  using assms by (simp add: DualShock4_ctor_def DUALSHOCK_4_CONTROLLER_PRO_ID_def)

theorem ctor_rejects_product_before_open_witness:
  "product_id other_product_info \<noteq> 2508
   \<and> snd (DualShock4_ctor good_env (Some other_product_info)) = Inl Aborted
   \<and> filter is_hid_call (fst (DualShock4_ctor good_env (Some other_product_info))) = []"
proof -
  have p: "product_id other_product_info \<noteq> 2508"
    by (simp add: other_product_info_def)
  show ?thesis
    using p ctor_rejects_product_before_open [OF p, of good_env] by simp
qed

text \<open>
  Claim C8. After every construction that completes, the 31 bytes of the staging payload
  are all zero; in particular the flags byte is zero, so no subsystem is selected.
\<close>

theorem ctor_zeroes_payload:
  assumes "snd (DualShock4_ctor w oi) = Inr h"
  shows "map_option (payload_bytes \<circ> payload) (controllerOutPacket h) = Some (replicate 31 0)
         \<and> map_option (flags \<circ> payload) (controllerOutPacket h) = Some 0"
  using ctor_Inr [OF assms] by (auto simp: payload_bytes_zero) (simp add: zero_payload_def)

theorem ctor_zeroes_payload_witness:
  "snd (DualShock4_ctor good_env (Some usb_info)) = Inr usb_handle
   \<and> map_option (payload_bytes \<circ> payload) (controllerOutPacket usb_handle)
       = Some (replicate 31 0)
   \<and> map_option (flags \<circ> payload) (controllerOutPacket usb_handle) = Some 0"
proof -
  have u: "snd (DualShock4_ctor good_env (Some usb_info)) = Inr usb_handle"
    by (simp add: ctor_good_usb)
  show ?thesis
    using u ctor_zeroes_payload [OF u] by simp
qed

section \<open>Teardown\<close>

text \<open>
  Claim C2, at the teardown of a freshly constructed object. The length handed to the
  final send is the size of the pointer member, so the write transmits the first 8 bytes
  of the packet with 64-bit pointers and the first 4 with 32-bit pointers, not 32.
\<close>

theorem dtor_sends_pointer_size:
  "snd (DualShock4_ctor good_env (Some usb_info)) = Inr usb_handle
   \<and> transmitted (fst (DualShock4_dtor good_env LP64 usb_handle))
       = [[0x05, 0, 1, 0, 0, 0, 0, 0]]
   \<and> transmitted (fst (DualShock4_dtor good_env ILP32 usb_handle)) = [[0x05, 0, 1, 0]]
   \<and> map length (transmitted (fst (DualShock4_dtor good_env LP64 usb_handle))) \<noteq> [32]
   \<and> map length (transmitted (fst (DualShock4_dtor good_env ILP32 usb_handle))) \<noteq> [32]"
  by (simp add: DualShock4_ctor_def DualShock4_dtor_def good_env_def usb_info_def usb_handle_def
      DUALSHOCK_4_CONTROLLER_PRO_ID_def zero_packet_def zero_payload_def
      packet_bytes_def payload_bytes_def)

lemma dtor_events:
  assumes "controllerOutPacket h = Some p" and "dev h = Some d"
  shows "DualShock4_dtor w dm h =
    ([HidSendOutputReport (Some d)
        (reportId p # payload_bytes ((payload p)\<lparr>reserved_unk := 1\<rparr>)) (sizeof_ptr dm)
        (hid_send_output_report w (Some d)
           (reportId p # payload_bytes ((payload p)\<lparr>reserved_unk := 1\<rparr>)) (sizeof_ptr dm)),
      Free, Stdout ''test1'', HidClose d, Stdout ''test1''], Inr ())"
  using assms by (simp add: DualShock4_dtor_def Let_def packet_bytes_def)

lemma setRumBle_usb_handle: "setRumBle 100 200 usb_handle = Inr rumble_handle"
  by (simp add: setRumBle_def on_payload_def usb_handle_def rumble_handle_def)

text \<open>
  Claim C3 as stated fails after a builder call. An object is constructed, the rumble
  magnitudes are set to 100 and 200, and the object is destroyed: the packet handed to
  the final send still carries 100 and 200, so it is not the canonical reset state.
\<close>

theorem dtor_reset_counterexample:
  "snd (DualShock4_ctor good_env (Some usb_info)) = Inr usb_handle
   \<and> setRumBle 100 200 usb_handle = Inr rumble_handle
   \<and> sent_buffers (fst (DualShock4_dtor good_env LP64 rumble_handle))
        = [[0x05, 0, 1, 0, 100, 200, 0, 0, 0, 0, 0] @ replicate 21 0]
   \<and> sent_buffers (fst (DualShock4_dtor good_env LP64 rumble_handle))
        \<noteq> [0x05 # payload_bytes reset_payload]"
  by (simp add: ctor_good_usb setRumBle_usb_handle rumble_handle_def
      DualShock4_dtor_def packet_bytes_def payload_bytes_def zero_payload_def reset_payload_def)

text \<open>
  Claim C3, amended. On teardown of every object whose packet is allocated and whose
  connection is open, the marker byte \<open>reserved_unk\<close> of the staging payload is set to
  1 and every other byte of the packet is left as it was (this is the canonical reset
  state when the payload was still all zero, as it is after construction); exactly one
  send is attempted, the connection is closed after it, and these are the only calls on
  the transport.
\<close>

theorem dtor_marks_sends_once_closes:
  assumes "controllerOutPacket h = Some p" and "dev h = Some d"
  shows "sent_buffers (fst (DualShock4_dtor w dm h))
           = [reportId p # payload_bytes ((payload p)\<lparr>reserved_unk := 1\<rparr>)]
         \<and> (payload p = zero_payload \<longrightarrow>
              sent_buffers (fst (DualShock4_dtor w dm h))
                = [reportId p # payload_bytes reset_payload])
         \<and> (\<exists>b n r. filter is_hid_call (fst (DualShock4_dtor w dm h))
                      = [HidSendOutputReport (Some d) b n r, HidClose d])
         \<and> snd (DualShock4_dtor w dm h) = Inr ()"
  by (simp add: dtor_events [OF assms] reset_payload_def)

theorem dtor_marks_sends_once_closes_witness:
  "controllerOutPacket rumble_handle
      = Some \<lparr>reportId = 0x05,
              payload = zero_payload\<lparr>smallMotorPower := 100, largeMotorPower := 200\<rparr>\<rparr>
   \<and> dev rumble_handle = Some 7
   \<and> sent_buffers (fst (DualShock4_dtor good_env LP64 rumble_handle))
        = [[0x05, 0, 1, 0, 100, 200, 0, 0, 0, 0, 0] @ replicate 21 0]
   \<and> (\<exists>b n r. filter is_hid_call (fst (DualShock4_dtor good_env LP64 rumble_handle))
                      = [HidSendOutputReport (Some 7) b n r, HidClose 7])
   \<and> snd (DualShock4_dtor good_env LP64 rumble_handle) = Inr ()
   \<and> controllerOutPacket usb_handle = Some \<lparr>reportId = 0x05, payload = zero_payload\<rparr>
   \<and> dev usb_handle = Some 7
   \<and> sent_buffers (fst (DualShock4_dtor good_env LP64 usb_handle))
        = [0x05 # payload_bytes reset_payload]"
proof -
  have p: "controllerOutPacket rumble_handle
      = Some \<lparr>reportId = 0x05,
              payload = zero_payload\<lparr>smallMotorPower := 100, largeMotorPower := 200\<rparr>\<rparr>"
    by (simp add: rumble_handle_def)
  have d: "dev rumble_handle = Some 7"
    by (simp add: rumble_handle_def)
  have q: "controllerOutPacket usb_handle = Some \<lparr>reportId = 0x05, payload = zero_payload\<rparr>"
    by (simp add: usb_handle_def)
  have e: "dev usb_handle = Some 7"
    by (simp add: usb_handle_def)
  show ?thesis
    using p d q e dtor_marks_sends_once_closes [OF p d, of good_env LP64]
      dtor_marks_sends_once_closes [OF q e, of good_env LP64]
    by (simp add: payload_bytes_def zero_payload_def reset_payload_def)
qed

text \<open>
  Claim C7. For every object whose packet is allocated and whose connection is open, as
  after every completed construction, and for every environment, that is whatever the
  final send returns, the teardown closes the connection and ends normally.
\<close>

theorem dtor_closes_whatever_send_returns:
  assumes "controllerOutPacket h \<noteq> None" and "dev h = Some d"
  shows "HidClose d \<in> set (fst (DualShock4_dtor w dm h))
         \<and> snd (DualShock4_dtor w dm h) = Inr ()"
  using assms by (auto simp: dtor_events)

theorem dtor_closes_whatever_send_returns_witness:
  "controllerOutPacket usb_handle \<noteq> None \<and> dev usb_handle = Some 7
   \<and> fst (DualShock4_dtor failing_send_env LP64 usb_handle)
       = [HidSendOutputReport (Some 7) (0x05 # payload_bytes reset_payload) 8 (- 1),
          Free, Stdout ''test1'', HidClose 7, Stdout ''test1'']
   \<and> HidClose 7 \<in> set (fst (DualShock4_dtor failing_send_env LP64 usb_handle))
   \<and> snd (DualShock4_dtor failing_send_env LP64 usb_handle) = Inr ()"
proof -
  have p: "controllerOutPacket usb_handle \<noteq> None"
    by (simp add: usb_handle_def)
  have d: "dev usb_handle = Some 7"
    by (simp add: usb_handle_def)
  have e: "fst (DualShock4_dtor failing_send_env LP64 usb_handle)
       = [HidSendOutputReport (Some 7) (0x05 # payload_bytes reset_payload) 8 (- 1),
          Free, Stdout ''test1'', HidClose 7, Stdout ''test1'']"
    by (simp add: DualShock4_dtor_def usb_handle_def failing_send_env_def packet_bytes_def
        reset_payload_def)
  show ?thesis
    using p d e dtor_closes_whatever_send_returns [OF p d, of failing_send_env LP64]
    by simp
qed

section \<open>The states of an object\<close>

lemma on_payload_Inr:
  "on_payload f h = Inr h' \<longleftrightarrow>
     (\<exists>p. controllerOutPacket h = Some p
        \<and> h' = h\<lparr>controllerOutPacket := Some (p\<lparr>payload := f (payload p)\<rparr>)\<rparr>)"
  by (auto simp: on_payload_def split: option.splits)

lemma send_Inr: "snd (send w h) = Inr h' \<Longrightarrow> h' = h"
  by (auto simp: send_def Let_def split: option.splits)

text \<open>
  In every state the packet is allocated, the connection is open and the 21 bytes of
  \<open>padding\<close> are zero: construction establishes this and no builder call or send
  changes it.
\<close>

lemma handle_state_inv:
  "handle_state h \<Longrightarrow>
     \<exists>p d. controllerOutPacket h = Some p \<and> dev h = Some d
         \<and> padding (payload p) = replicate 21 0"
proof (induction rule: handle_state.induct)
  case (constructed w oi h)
  from ctor_Inr [OF constructed] show ?case
    by (auto simp: zero_payload_def)
next
  case (sent h w h')
  then show ?case by (auto dest: send_Inr)
qed (auto simp: enableRumble_def enableLED_def enableLEDBlink_def setRumBle_def
       setLEDColor_def setLEDOnPeriod_def setLEDOffPeriod_def on_payload_Inr)

lemma handle_state_usb_handle: "handle_state usb_handle"
  by (rule handle_state.constructed [of good_env "Some usb_info"]) (simp add: ctor_good_usb)

lemma handle_state_rumble_handle: "handle_state rumble_handle"
  by (rule handle_state.rumble_set [OF handle_state_usb_handle setRumBle_usb_handle])

text \<open>A send as the specification describes it transmits the 32 bytes of the packet.\<close>

lemma send_transmits_32:
  assumes "handle_state h"
  shows "map length (transmitted (fst (send w h))) = [32]"
proof -
  from handle_state_inv [OF assms] obtain p where
    "controllerOutPacket h = Some p" and "padding (payload p) = replicate 21 0"
    by blast
  then show ?thesis
    by (simp add: send_def Let_def packet_bytes_def payload_bytes_def sizeof_packet_32)
qed

text \<open>
  Claim C5. The reserved fields of the specification are the 21 bytes of \<open>padding\<close> at
  the end of the payload (the marker byte \<open>reserved_unk\<close>, which the teardown sets to
  1, is one of the ten leading bytes). In every state of an object these 21 bytes are
  zero, and the packet handed to the final send of the teardown has them zero at
  offsets 11 to 31.
\<close>

theorem reserved_tail_stays_zero:
  assumes "handle_state h"
  shows "map_option (padding \<circ> payload) (controllerOutPacket h) = Some (replicate 21 0)
         \<and> map (drop 11) (sent_buffers (fst (DualShock4_dtor w dm h))) = [replicate 21 0]"
proof -
  from handle_state_inv [OF assms] obtain p d where
    p: "controllerOutPacket h = Some p" and d: "dev h = Some d"
    and z: "padding (payload p) = replicate 21 0"
    by blast
  show ?thesis
    by (simp add: dtor_events [OF p d] p z payload_bytes_def)
qed

theorem reserved_tail_stays_zero_witness:
  "handle_state rumble_handle
   \<and> map_option (padding \<circ> payload) (controllerOutPacket rumble_handle) = Some (replicate 21 0)
   \<and> map (drop 11) (sent_buffers (fst (DualShock4_dtor good_env LP64 rumble_handle)))
       = [replicate 21 0]"
proof -
  have h: "handle_state rumble_handle"
    by (rule handle_state_rumble_handle)
  show ?thesis
    using h reserved_tail_stays_zero [OF h, of good_env LP64] by simp
qed

section \<open>The builder\<close>

text \<open>List updates at the offsets of the packet fields.\<close>

lemma upd45: "(x0 # x1 # x2 # x3 # x4 # x5 # xs)[4 := a, 5 := b] = x0 # x1 # x2 # x3 # a # b # xs"
  by (simp add: numeral_eq_Suc)

lemma upd678:
  "(x0 # x1 # x2 # x3 # x4 # x5 # x6 # x7 # x8 # xs)[6 := a, 7 := b, 8 := c]
     = x0 # x1 # x2 # x3 # x4 # x5 # a # b # c # xs"
  by (simp add: numeral_eq_Suc)

lemma upd9:
  "(x0 # x1 # x2 # x3 # x4 # x5 # x6 # x7 # x8 # x9 # xs)[9 := a]
     = x0 # x1 # x2 # x3 # x4 # x5 # x6 # x7 # x8 # a # xs"
  by (simp add: numeral_eq_Suc)

lemma upd10:
  "(x0 # x1 # x2 # x3 # x4 # x5 # x6 # x7 # x8 # x9 # x10 # xs)[10 := a]
     = x0 # x1 # x2 # x3 # x4 # x5 # x6 # x7 # x8 # x9 # a # xs"
  by (simp add: numeral_eq_Suc)

text \<open>What each builder method does to the bytes of the staging packet.\<close>

lemma enable_frame:
  assumes "controllerOutPacket h = Some p"
  shows "\<exists>h'. on_payload (\<lambda>q. q\<lparr>flags := flags q OR m\<rparr>) h = Inr h' \<and> dev h' = dev h
            \<and> isUsb h' = isUsb h \<and> wire h' = (wire h)[1 := wire h ! 1 OR m]"
  using assms by (simp add: on_payload_def wire_def packet_bytes_def payload_bytes_def)

lemma setRumBle_frame:
  assumes "controllerOutPacket h = Some p"
  shows "\<exists>h'. setRumBle a b h = Inr h' \<and> dev h' = dev h \<and> isUsb h' = isUsb h
            \<and> wire h' = (wire h)[4 := a, 5 := b] \<and> wire h' ! 1 = wire h ! 1"
  using assms
  by (simp add: setRumBle_def on_payload_def wire_def packet_bytes_def payload_bytes_def upd45)

lemma setLEDColor_frame:
  assumes "controllerOutPacket h = Some p"
  shows "\<exists>h'. setLEDColor r g b h = Inr h' \<and> dev h' = dev h \<and> isUsb h' = isUsb h
            \<and> wire h' = (wire h)[6 := r, 7 := g, 8 := b]"
  using assms
  by (simp add: setLEDColor_def on_payload_def wire_def packet_bytes_def payload_bytes_def upd678)

lemma setLEDOnPeriod_frame:
  assumes "controllerOutPacket h = Some p"
  shows "\<exists>h'. setLEDOnPeriod t h = Inr h' \<and> dev h' = dev h \<and> isUsb h' = isUsb h
            \<and> wire h' = (wire h)[9 := t]"
  using assms
  by (simp add: setLEDOnPeriod_def on_payload_def wire_def packet_bytes_def payload_bytes_def upd9)

lemma setLEDOffPeriod_frame:
  assumes "controllerOutPacket h = Some p"
  shows "\<exists>h'. setLEDOffPeriod t h = Inr h' \<and> dev h' = dev h \<and> isUsb h' = isUsb h
            \<and> wire h' = (wire h)[10 := t]"
  using assms
  by (simp add: setLEDOffPeriod_def on_payload_def wire_def packet_bytes_def payload_bytes_def upd10)

lemma enable_send_fresh:
  assumes "snd (DualShock4_ctor w0 oi) = Inr h0"
  shows "\<exists>h1. enableRumble m h0 = Inr h1
           \<and> map (\<lambda>b. (b ! 1, b ! 4, b ! 5)) (transmitted (fst (send w h1))) = [(m, 0, 0)]"
proof -
  from ctor_Inr [OF assms] obtain p where
    p: "controllerOutPacket h0 = Some p" and z: "payload p = zero_payload"
    by auto
  show ?thesis
    by (simp add: p z enableRumble_def on_payload_def send_def Let_def packet_bytes_def
        payload_bytes_def zero_payload_def sizeof_packet_32)
qed

text \<open>
  Claim C9. On an object whose packet is allocated, every builder method returns the
  object with connection and transport flag unchanged and changes only its own bytes of
  the staging packet: an enable method ORs its mask into the flags byte (offset 1),
  \<open>setRumBle\<close> writes offsets 4 and 5, \<open>setLEDColor\<close> offsets 6 to 8,
  \<open>setLEDOnPeriod\<close> offset 9 and \<open>setLEDOffPeriod\<close> offset 10. In particular
  \<open>setRumBle\<close> leaves the flags byte as it was, and enabling rumble on a freshly
  constructed object and sending transmits the mask as flags and zero magnitudes.
\<close>

theorem builder_frame:
  assumes "controllerOutPacket h = Some p" and "snd (DualShock4_ctor w0 oi) = Inr h0"
  shows "(\<exists>h'. enableRumble m h = Inr h' \<and> dev h' = dev h \<and> isUsb h' = isUsb h
               \<and> wire h' = (wire h)[1 := wire h ! 1 OR m])
       \<and> (\<exists>h'. enableLED m h = Inr h' \<and> dev h' = dev h \<and> isUsb h' = isUsb h
               \<and> wire h' = (wire h)[1 := wire h ! 1 OR m])
       \<and> (\<exists>h'. enableLEDBlink m h = Inr h' \<and> dev h' = dev h \<and> isUsb h' = isUsb h
               \<and> wire h' = (wire h)[1 := wire h ! 1 OR m])
       \<and> (\<exists>h'. setRumBle a b h = Inr h' \<and> dev h' = dev h \<and> isUsb h' = isUsb h
               \<and> wire h' = (wire h)[4 := a, 5 := b] \<and> wire h' ! 1 = wire h ! 1)
       \<and> (\<exists>h'. setLEDColor r g bl h = Inr h' \<and> dev h' = dev h \<and> isUsb h' = isUsb h
               \<and> wire h' = (wire h)[6 := r, 7 := g, 8 := bl])
       \<and> (\<exists>h'. setLEDOnPeriod t h = Inr h' \<and> dev h' = dev h \<and> isUsb h' = isUsb h
               \<and> wire h' = (wire h)[9 := t])
       \<and> (\<exists>h'. setLEDOffPeriod t h = Inr h' \<and> dev h' = dev h \<and> isUsb h' = isUsb h
               \<and> wire h' = (wire h)[10 := t])
       \<and> (\<exists>h1. enableRumble m h0 = Inr h1
               \<and> map (\<lambda>b. (b ! 1, b ! 4, b ! 5)) (transmitted (fst (send w h1))) = [(m, 0, 0)])"
  using enable_frame [OF assms(1), of m] setRumBle_frame [OF assms(1), of a b]
    setLEDColor_frame [OF assms(1), of r g bl] setLEDOnPeriod_frame [OF assms(1), of t]
    setLEDOffPeriod_frame [OF assms(1), of t] enable_send_fresh [OF assms(2), of m w]
  unfolding enableRumble_def enableLED_def enableLEDBlink_def
  by blast

theorem builder_frame_witness:
  "controllerOutPacket usb_handle = Some \<lparr>reportId = 0x05, payload = zero_payload\<rparr>
   \<and> snd (DualShock4_ctor good_env (Some usb_info)) = Inr usb_handle
   \<and> setRumBle 100 200 usb_handle = Inr rumble_handle
   \<and> wire rumble_handle = (wire usb_handle)[4 := 100, 5 := 200]
   \<and> wire rumble_handle ! 1 = wire usb_handle ! 1
   \<and> (\<exists>h1. enableRumble 1 usb_handle = Inr h1
          \<and> wire h1 = (wire usb_handle)[1 := wire usb_handle ! 1 OR 1]
          \<and> map (\<lambda>b. (b ! 1, b ! 4, b ! 5)) (transmitted (fst (send good_env h1)))
               = [(1, 0, 0)])"
proof -
  have p: "controllerOutPacket usb_handle = Some \<lparr>reportId = 0x05, payload = zero_payload\<rparr>"
    by (simp add: usb_handle_def)
  have c: "snd (DualShock4_ctor good_env (Some usb_info)) = Inr usb_handle"
    by (simp add: ctor_good_usb)
  show ?thesis
    using p c setRumBle_usb_handle
      builder_frame [OF p c, of 1 100 200 0 0 0 0 good_env]
    by auto
qed

section \<open>Allocation failure\<close>

text \<open>
  Claim C10. For a descriptor that passes the product check and opens, construction
  yields an object with an allocated packet, which the destructor then handles without
  fault, exactly when \<^verbatim>\<open>calloc\<close> returns memory; when it returns \<^verbatim>\<open>NULL\<close> the
  constructor's first write to the packet goes through the null pointer. Nothing checks
  the pointer: the destructor on an object without packet faults at its first statement.
  Every state of an object has the packet allocated, so the builder methods never see
  \<^verbatim>\<open>NULL\<close> after a completed construction.
\<close>

theorem packet_valid_iff_calloc_succeeds:
  assumes "product_id info = 2508"
    and "hid_open w (vendor_id info) (product_id info) (serial_number info) = Some d"
  shows "(calloc_ok w \<longrightarrow>
            (\<exists>h. snd (DualShock4_ctor w (Some info)) = Inr h \<and> controllerOutPacket h \<noteq> None
                 \<and> snd (DualShock4_dtor w dm h) = Inr ()))
       \<and> (\<not> calloc_ok w \<longrightarrow> snd (DualShock4_ctor w (Some info)) = Inl NullDeref)
       \<and> (controllerOutPacket g = None \<longrightarrow> DualShock4_dtor w dm g = ([], Inl NullDeref))
       \<and> (handle_state g \<longrightarrow> controllerOutPacket g \<noteq> None)"
proof -
  have "handle_state g \<longrightarrow> controllerOutPacket g \<noteq> None"
    using handle_state_inv [of g] by auto
  then show ?thesis
    using assms
    by (simp add: DualShock4_ctor_def DualShock4_dtor_def Let_def
        DUALSHOCK_4_CONTROLLER_PRO_ID_def)
qed

theorem packet_valid_iff_calloc_succeeds_witness:
  "product_id usb_info = 2508
   \<and> hid_open good_env (vendor_id usb_info) (product_id usb_info) (serial_number usb_info)
       = Some 7
   \<and> calloc_ok good_env
   \<and> (\<exists>h. snd (DualShock4_ctor good_env (Some usb_info)) = Inr h
          \<and> controllerOutPacket h \<noteq> None \<and> snd (DualShock4_dtor good_env LP64 h) = Inr ())
   \<and> handle_state usb_handle \<and> controllerOutPacket usb_handle \<noteq> None
   \<and> hid_open no_memory_env (vendor_id usb_info) (product_id usb_info) (serial_number usb_info)
       = Some 7
   \<and> \<not> calloc_ok no_memory_env
   \<and> snd (DualShock4_ctor no_memory_env (Some usb_info)) = Inl NullDeref
   \<and> controllerOutPacket (usb_handle\<lparr>controllerOutPacket := None\<rparr>) = None
   \<and> DualShock4_dtor no_memory_env LP64 (usb_handle\<lparr>controllerOutPacket := None\<rparr>)
       = ([], Inl NullDeref)"
proof -
  have i: "product_id usb_info = 2508"
    by (simp add: usb_info_def)
  have o: "hid_open good_env (vendor_id usb_info) (product_id usb_info) (serial_number usb_info)
       = Some 7"
    by (simp add: good_env_def)
  have n: "hid_open no_memory_env (vendor_id usb_info) (product_id usb_info)
       (serial_number usb_info) = Some 7"
    by (simp add: no_memory_env_def)
  have k: "calloc_ok good_env" "\<not> calloc_ok no_memory_env"
    by (simp_all add: good_env_def no_memory_env_def)
  show ?thesis
    using i o n k handle_state_usb_handle
      packet_valid_iff_calloc_succeeds [OF i o, of LP64 usb_handle]
      packet_valid_iff_calloc_succeeds
        [OF i n, of LP64 "usb_handle\<lparr>controllerOutPacket := None\<rparr>"]
    by simp
qed

end
